theory Spec2Isabelle
  imports Main "HOL-Library.Sublist"
begin


section \<open>The acquisition and aggregation layer\<close>

text \<open>
  The repository's back end (credential resolution, response cache, the two
  provider clients and the yearly aggregation) is not among the source files
  at hand; the front end only calls it over HTTP. The definitions of this
  section are therefore written from the specification, each one marked so.
\<close>

subsection \<open>Credentials\<close>

text \<open>Modelled from the spec: the value \<open>CredentialAvailability\<close> that the missing
  \<open>CredentialResolver.resolve\<close> returns; it is resolved once and passed to each
  client.\<close>

record CredentialAvailability =
  censusKeyPresent :: bool
  realEstateKeyPresent :: bool

subsection \<open>ResponseCache\<close>

text \<open>Modelled from the spec: the key of the missing \<open>ResponseCache\<close>. A key holds
  the provider name and every query parameter verbatim, so two requests share
  a key only when they are the same request.\<close>

type_synonym payload = string

datatype param = PStr string | PInt int

type_synonym cache_key = "string \<times> param list"

definition derive_key :: "string \<Rightarrow> param list \<Rightarrow> cache_key" where
  "derive_key provider params = (provider, params)"

text \<open>Modelled from the spec: \<open>CacheEntry\<close> and the on-disk store of the missing
  \<open>ResponseCache\<close>. Under a key the disk holds nothing, a well-formed entry,
  or a file that does not parse. A write replaces the file atomically or fails
  as a whole; whether the disk accepts writes is part of the store.\<close>

record CacheEntry =
  key :: cache_key
  payload :: payload
  storedAt :: nat

datatype disk_file = WellFormed CacheEntry | Malformed

record ResponseCache =
  files :: "cache_key \<rightharpoonup> disk_file"
  writable :: bool
  clock :: nat

datatype cache_error = NotFound | WriteFailure

text \<open>Modelled from the spec: \<open>ResponseCache.get\<close>, missing from the sources. A
  malformed entry is a miss.\<close>

definition get :: "ResponseCache \<Rightarrow> cache_key \<Rightarrow> cache_error + payload" where
  "get c k =
     (case files c k of
        None \<Rightarrow> Inl NotFound
      | Some Malformed \<Rightarrow> Inl NotFound
      | Some (WellFormed e) \<Rightarrow> Inr (CacheEntry.payload e))"

text \<open>Modelled from the spec: \<open>ResponseCache.put\<close>, missing from the sources. It
  returns success or \<open>WriteFailure\<close>, and the store after it; a failed write
  leaves the store as it was.\<close>

definition put ::
  "ResponseCache \<Rightarrow> cache_key \<Rightarrow> payload \<Rightarrow> (cache_error + unit) \<times> ResponseCache" where
  "put c k p =
     (if writable c
      then (Inr (),
            c\<lparr>files := (files c)(k \<mapsto> WellFormed \<lparr>key = k, payload = p, storedAt = clock c\<rparr>)\<rparr>)
      else (Inl WriteFailure, c))"

text \<open>Modelled from the spec: the cache right after a purge, and a run of
  \<open>put\<close> calls on it (each with its key and payload, in order).\<close>

definition purged :: "bool \<Rightarrow> nat \<Rightarrow> ResponseCache" where
  "purged w t = \<lparr>files = Map.empty, writable = w, clock = t\<rparr>"

definition puts :: "ResponseCache \<Rightarrow> (cache_key \<times> payload) list \<Rightarrow> ResponseCache" where
  "puts c kps = foldl (\<lambda>c' (k, p). snd (put c' k p)) c kps"

subsection \<open>Upstream requests and the retry policy\<close>

text \<open>Modelled from the spec: what one upstream request can come back with, and
  the error taxonomy of section 7. A network failure, a timeout and a
  non-success status are all \<open>UpstreamUnavailable\<close>; only the two caller errors
  are hard failures.\<close>

datatype response = Http nat payload | NetworkFailure | Timeout

datatype upstream_error = UpstreamUnavailable

datatype hard_error = InvalidYear | InvalidMunicipalityCode

definition classify :: "response \<Rightarrow> upstream_error + payload" where
  "classify r =
     (case r of
        Http status body \<Rightarrow> if 200 \<le> status \<and> status < 300 then Inr body else Inl UpstreamUnavailable
      | NetworkFailure \<Rightarrow> Inl UpstreamUnavailable
      | Timeout \<Rightarrow> Inl UpstreamUnavailable)"

text \<open>Modelled from the spec: the state a client run threads along, the shared
  cache and a counter of the upstream requests issued so far; and the result
  handed to the boundary layer, the records with the degraded-mode indicator.\<close>

record client_state =
  cache :: ResponseCache
  fetch_count :: nat

record 'a fetch_result =
  records :: "'a list"
  degraded :: bool

text \<open>Modelled from the spec: the bounded retry of one live request, missing from
  the sources. The upstream is a function of the number of the request, so
  that it may answer each attempt differently. Every attempt counts as a
  request. A payload that arrives is cached before it is normalised (a failed
  cache write is swallowed); a payload that does not normalise counts as
  \<open>UpstreamUnavailable\<close> and is retried. The waiting between attempts is not
  modelled.\<close>

definition max_attempts :: nat where
  "max_attempts = 3"

fun live_fetch ::
  "nat \<Rightarrow> (nat \<Rightarrow> response) \<Rightarrow> (payload \<Rightarrow> 'r option) \<Rightarrow> cache_key \<Rightarrow> client_state \<Rightarrow>
   'r option \<times> client_state" where
  "live_fetch 0 upstream normalise k st = (None, st)"
| "live_fetch (Suc attempts) upstream normalise k st =
     (let st1 = st\<lparr>fetch_count := Suc (fetch_count st)\<rparr>
      in case classify (upstream (fetch_count st)) of
           Inl e \<Rightarrow> live_fetch attempts upstream normalise k st1
         | Inr p \<Rightarrow>
             (let st2 = st1\<lparr>cache := snd (put (cache st1) k p)\<rparr>
              in case normalise p of
                   None \<Rightarrow> live_fetch attempts upstream normalise k st2
                 | Some r \<Rightarrow> (Some r, st2)))"

subsection \<open>CensusClient\<close>

text \<open>Modelled from the spec: \<open>PopulationRecord\<close>.\<close>

record PopulationRecord =
  code :: string
  prefectureName :: string
  municipalityName :: string
  year :: int
  population :: int

text \<open>The census years, as the Makefile's \<^verbatim>\<open>fetch-data\<close> target lists them.\<close>

definition supported_years :: "int list" where
  "supported_years = [2000, 2005, 2010, 2015, 2020]"

text \<open>Modelled from the spec: \<open>CensusClient.fetchPopulation\<close>, missing from the
  sources. The bundled static dataset, the table id, the upstream and the
  provider's normalisation (with its validation of rows; \<open>None\<close> is
  \<open>MalformedUpstreamPayload\<close>) are parameters.\<close>

definition static_for :: "PopulationRecord list \<Rightarrow> int \<Rightarrow> PopulationRecord list" where
  "static_for static y = filter (\<lambda>r. PopulationRecord.year r = y) static"

definition fetchPopulation ::
  "CredentialAvailability \<Rightarrow> PopulationRecord list \<Rightarrow> string \<Rightarrow>
   (nat \<Rightarrow> string \<Rightarrow> int \<Rightarrow> response) \<Rightarrow> (payload \<Rightarrow> PopulationRecord list option) \<Rightarrow>
   int \<Rightarrow> client_state \<Rightarrow> hard_error + (PopulationRecord fetch_result \<times> client_state)" where
  "fetchPopulation creds static tableId upstream normalise y st =
     (if y \<notin> set supported_years then Inl InvalidYear
      else if \<not> censusKeyPresent creds
      then Inr (\<lparr>records = static_for static y, degraded = True\<rparr>, st)
      else
        case live_fetch max_attempts (\<lambda>n. upstream n tableId y) normalise
               (derive_key ''census'' [PStr tableId, PInt y]) st of
          (None, st1) \<Rightarrow> Inr (\<lparr>records = static_for static y, degraded = True\<rparr>, st1)
        | (Some rs, st1) \<Rightarrow> Inr (\<lparr>records = rs, degraded = False\<rparr>, st1))"

text \<open>Modelled from the spec: what it is for one attempt of the live request to
  fail, the upstream is unavailable or its payload does not normalise.\<close>

definition attempt_fails ::
  "(nat \<Rightarrow> string \<Rightarrow> int \<Rightarrow> response) \<Rightarrow> (payload \<Rightarrow> 'r option) \<Rightarrow> string \<Rightarrow> int \<Rightarrow> nat \<Rightarrow> bool" where
  "attempt_fails upstream normalise tableId y n =
     (case classify (upstream n tableId y) of Inl e \<Rightarrow> True | Inr p \<Rightarrow> normalise p = None)"

subsection \<open>RealEstateClient\<close>

text \<open>Modelled from the spec: \<open>RealEstateTransaction\<close>, with the fields the
  aggregation reads (the trade date, the provider's year field, the two
  prices); the descriptive fields are left out. Amounts are integers in the
  smallest currency unit.\<close>

record RealEstateTransaction =
  tradeDate :: "string option"
  providerYear :: "int option"
  tradePrice :: "int option"
  unitPrice :: "int option"

text \<open>Modelled from the spec: a municipality code is five numeric characters.\<close>

definition valid_code :: "string \<Rightarrow> bool" where
  "valid_code c = (length c = 5 \<and> list_all (\<lambda>ch. ch \<in> set ''0123456789'') c)"

text \<open>Modelled from the spec: one year of \<open>RealEstateClient.fetchTransactions\<close>,
  missing from the sources. The cache is read first; an entry that is absent,
  malformed or does not normalise is a miss, and a miss issues the live
  request.\<close>

definition fetch_year ::
  "(nat \<Rightarrow> string \<Rightarrow> int \<Rightarrow> response) \<Rightarrow> (payload \<Rightarrow> RealEstateTransaction list option) \<Rightarrow>
   string \<Rightarrow> int \<Rightarrow> client_state \<Rightarrow> RealEstateTransaction list option \<times> client_state" where
  "fetch_year upstream normalise c y st =
     (let k = derive_key ''realestate'' [PStr c, PInt y];
          cached = (case get (cache st) k of Inl e \<Rightarrow> None | Inr p \<Rightarrow> normalise p)
      in case cached of
           Some ts \<Rightarrow> (Some ts, st)
         | None \<Rightarrow> live_fetch max_attempts (\<lambda>n. upstream n c y) normalise k st)"

text \<open>Modelled from the spec: the loop of \<open>fetchTransactions\<close> over the years,
  ascending. A year whose request fails after the retries contributes nothing
  and sets the degraded-mode indicator.\<close>

fun fetch_years ::
  "(nat \<Rightarrow> string \<Rightarrow> int \<Rightarrow> response) \<Rightarrow> (payload \<Rightarrow> RealEstateTransaction list option) \<Rightarrow>
   string \<Rightarrow> int list \<Rightarrow> client_state \<Rightarrow> RealEstateTransaction fetch_result \<times> client_state" where
  "fetch_years upstream normalise c [] st = (\<lparr>records = [], degraded = False\<rparr>, st)"
| "fetch_years upstream normalise c (y # ys) st =
     (case fetch_year upstream normalise c y st of
        (None, st1) \<Rightarrow>
          (case fetch_years upstream normalise c ys st1 of
             (r, st2) \<Rightarrow> (r\<lparr>degraded := True\<rparr>, st2))
      | (Some ts, st1) \<Rightarrow>
          (case fetch_years upstream normalise c ys st1 of
             (r, st2) \<Rightarrow> (r\<lparr>records := ts @ records r\<rparr>, st2)))"

text \<open>Modelled from the spec: \<open>RealEstateClient.fetchTransactions\<close>, missing from
  the sources. Without the real-estate key it returns the empty sequence at
  once; an ill-formed code is the caller error.\<close>

definition fetchTransactions ::
  "CredentialAvailability \<Rightarrow> (nat \<Rightarrow> string \<Rightarrow> int \<Rightarrow> response) \<Rightarrow>
   (payload \<Rightarrow> RealEstateTransaction list option) \<Rightarrow> string \<Rightarrow> int \<Rightarrow> int \<Rightarrow> client_state \<Rightarrow>
   hard_error + (RealEstateTransaction fetch_result \<times> client_state)" where
  "fetchTransactions creds upstream normalise c yearFrom yearTo st =
     (if \<not> realEstateKeyPresent creds then Inr (\<lparr>records = [], degraded = True\<rparr>, st)
      else if \<not> valid_code c then Inl InvalidMunicipalityCode
      else Inr (fetch_years upstream normalise c [yearFrom..yearTo] st))"

subsection \<open>RealEstateAggregator\<close>

text \<open>Modelled from the spec: \<open>RealEstateYearlySummary\<close>.\<close>

record RealEstateYearlySummary =
  code :: string
  year :: int
  transactionCount :: nat
  avgUnitPrice :: "int option"
  minUnitPrice :: "int option"
  maxUnitPrice :: "int option"

text \<open>Modelled from the spec: the year a transaction is grouped under, from the
  trade date when there is one (how a date string yields its year is a
  parameter), else the provider's year field, else none.\<close>

definition transaction_year :: "(string \<Rightarrow> int) \<Rightarrow> RealEstateTransaction \<Rightarrow> int option" where
  "transaction_year year_of_date t =
     (case tradeDate t of Some d \<Rightarrow> Some (year_of_date d) | None \<Rightarrow> providerYear t)"

text \<open>One such parameter, for evaluating examples: the number written by the
  first four characters of a date such as \<open>2015-04-01\<close>.\<close>

definition year_prefix :: "string \<Rightarrow> int" where
  "year_prefix d = foldl (\<lambda>a ch. 10 * a + (int (of_char ch) - 48)) 0 (take 4 d)"

definition year_group ::
  "(string \<Rightarrow> int) \<Rightarrow> RealEstateTransaction list \<Rightarrow> int \<Rightarrow> RealEstateTransaction list" where
  "year_group year_of_date ts y = filter (\<lambda>t. transaction_year year_of_date t = Some y) ts"

text \<open>Modelled from the spec: the mean of \<open>s / n\<close> for \<open>n > 0\<close>, rounded to the nearest
  integer, a tie going to the even neighbour.\<close>

definition round_half_even :: "int \<Rightarrow> int \<Rightarrow> int" where
  "round_half_even s n =
     (let q = s div n; r = s mod n
      in if 2 * r < n then q
         else if n < 2 * r then q + 1
         else if even q then q else q + 1)"

text \<open>Modelled from the spec: the summary of one year group. The count is over
  every transaction of the group; the three prices are over the unit prices
  that are present, and absent when none is.\<close>

definition summarize_year ::
  "(string \<Rightarrow> int) \<Rightarrow> string \<Rightarrow> RealEstateTransaction list \<Rightarrow> int \<Rightarrow> RealEstateYearlySummary" where
  "summarize_year year_of_date c ts y =
     (let g = year_group year_of_date ts y;
          prices = List.map_filter unitPrice g
      in \<lparr>code = c, year = y, transactionCount = length g,
          avgUnitPrice =
            (case prices of [] \<Rightarrow> None
             | p # ps \<Rightarrow> Some (round_half_even (sum_list prices) (int (length prices)))),
          minUnitPrice = (case prices of [] \<Rightarrow> None | p # ps \<Rightarrow> Some (fold min ps p)),
          maxUnitPrice = (case prices of [] \<Rightarrow> None | p # ps \<Rightarrow> Some (fold max ps p))\<rparr>)"

text \<open>Modelled from the spec: \<open>RealEstateAggregator.summarize\<close>, missing from the
  sources: one summary per year present in the input, years ascending.\<close>

definition summarize ::
  "(string \<Rightarrow> int) \<Rightarrow> RealEstateTransaction list \<Rightarrow> string \<Rightarrow> RealEstateYearlySummary list" where
  "summarize year_of_date ts c =
     map (summarize_year year_of_date c ts)
       (sort (remdups (List.map_filter (transaction_year year_of_date) ts)))"

section \<open>Data model of the front end\<close>

text \<open>
  The interfaces of \<^verbatim>\<open>types/population.ts\<close> and \<^verbatim>\<open>types/realestate.ts\<close>.
  A TypeScript \<^verbatim>\<open>number\<close> that holds a year, a head count or an amount in the
  smallest currency unit is an \<^typ>\<open>int\<close>. Field names are those of the source;
  where two interfaces share a field name the selector is written qualified
  (\<open>YearlyPopulation.year\<close>, \<open>RealEstateYearlyData.year\<close>).
\<close>

record YearlyPopulation =
  year :: int
  population :: int

record RealEstateYearlyData =
  year :: int
  transaction_count :: int
  avg_unit_price :: int
  min_unit_price :: int
  max_unit_price :: int

text \<open>
  The element type of \<^verbatim>\<open>dataMap\<close> in \<^verbatim>\<open>CombinedChart.tsx\<close>: \<^verbatim>\<open>year\<close> is
  required, the other three fields are optional properties (\<^verbatim>\<open>?:\<close>), absent
  (\<open>None\<close>) until something assigns them.
\<close>

record CombinedRow =
  year :: int
  population :: "int option"
  avg_unit_price :: "int option"
  transaction_count :: "int option"

text \<open>
  \<^verbatim>\<open>MunicipalityListItem\<close>. A JavaScript string is a sequence of UTF-16 code units;
  the type \<open>'c\<close> of a code unit is left open, since municipality and prefecture
  names are Japanese text.
\<close>

record 'c MunicipalityListItem =
  code :: "'c list"
  prefecture :: "'c list"
  municipality :: "'c list"

text \<open>The one exception the modelled code can throw: a property read on \<^verbatim>\<open>undefined\<close>,
  or \<^verbatim>\<open>reduce\<close> of an empty array without an initial value.\<close>

datatype js_error = TypeError


section \<open>JavaScript building blocks\<close>

text \<open>
  A JavaScript \<^verbatim>\<open>Map\<close> iterates in insertion order, and \<^verbatim>\<open>set\<close> on a key that
  is already present replaces the value and keeps the key's position. It is an
  association list, oldest key first.
\<close>

type_synonym ('k, 'v) js_map = "('k \<times> 'v) list"

fun map_set :: "('k, 'v) js_map \<Rightarrow> 'k \<Rightarrow> 'v \<Rightarrow> ('k, 'v) js_map" where
  "map_set [] k v = [(k, v)]"
| "map_set ((k', v') # m) k v =
     (if k' = k then (k', v) # m else (k', v') # map_set m k v)"

definition map_get :: "('k, 'v) js_map \<Rightarrow> 'k \<Rightarrow> 'v option" where
  "map_get m k = map_of m k"

definition map_values :: "('k, 'v) js_map \<Rightarrow> 'v list" where
  "map_values m = map snd m"

text \<open>\<^verbatim>\<open>xs[i]\<close>: an index outside the array reads \<^verbatim>\<open>undefined\<close> (\<open>None\<close>),
  also the index \<open>-1\<close> that \<^verbatim>\<open>xs[xs.length - 1]\<close> computes for the empty array.\<close>

definition js_index :: "'a list \<Rightarrow> int \<Rightarrow> 'a option" where
  "js_index xs i = (if 0 \<le> i \<and> i < int (length xs) then Some (xs ! nat i) else None)"


text \<open>\<^verbatim>\<open>s.includes(t)\<close>: \<open>t\<close> occurs in \<open>s\<close> as a contiguous run.\<close>

definition str_includes :: "'c list \<Rightarrow> 'c list \<Rightarrow> bool" where
  "str_includes s t = sublist t s"

text \<open>\<^verbatim>\<open>xs.slice(0, n)\<close> for \<open>n \<ge> 0\<close>.\<close>

definition slice0 :: "'a list \<Rightarrow> nat \<Rightarrow> 'a list" where
  "slice0 xs n = take n xs"


section \<open>CombinedChart: joining the two series\<close>

text \<open>
  \<^verbatim>\<open>combinedData\<close> of \<^verbatim>\<open>CombinedChart.tsx\<close>. The first \<^verbatim>\<open>forEach\<close> stores one
  row per population record under its year; the second, run only when
  \<^verbatim>\<open>realEstateData\<close> is not \<^verbatim>\<open>null\<close>, spreads the row already stored for the year
  (or a fresh \<^verbatim>\<open>{ year }\<close>) and overwrites the two real-estate fields. The values
  are then sorted with the comparator \<^verbatim>\<open>a.year - b.year\<close>;
  \<^verbatim>\<open>Array.prototype.sort\<close> is stable, as \<^const>\<open>sort_key\<close> is.
\<close>

definition add_population ::
  "(int, CombinedRow) js_map \<Rightarrow> YearlyPopulation \<Rightarrow> (int, CombinedRow) js_map" where
  "add_population dataMap d =
     map_set dataMap (YearlyPopulation.year d)
       \<lparr>year = YearlyPopulation.year d,
        population = Some (YearlyPopulation.population d),
        avg_unit_price = None,
        transaction_count = None\<rparr>"

definition add_real_estate ::
  "(int, CombinedRow) js_map \<Rightarrow> RealEstateYearlyData \<Rightarrow> (int, CombinedRow) js_map" where
  "add_real_estate dataMap d =
     (let existing =
        (case map_get dataMap (RealEstateYearlyData.year d) of
           Some e \<Rightarrow> e
         | None \<Rightarrow> \<lparr>year = RealEstateYearlyData.year d, population = None,
                    avg_unit_price = None, transaction_count = None\<rparr>)
      in map_set dataMap (RealEstateYearlyData.year d)
           (existing\<lparr>avg_unit_price := Some (RealEstateYearlyData.avg_unit_price d),
                     transaction_count := Some (RealEstateYearlyData.transaction_count d)\<rparr>))"

definition combinedData ::
  "YearlyPopulation list \<Rightarrow> RealEstateYearlyData list option \<Rightarrow> CombinedRow list" where
  "combinedData populationData realEstateData =
     (let dataMap0 = foldl add_population [] populationData;
          dataMap = (case realEstateData of
                       None \<Rightarrow> dataMap0
                     | Some re \<Rightarrow> foldl add_real_estate dataMap0 re)
      in sort_key CombinedRow.year (map_values dataMap))"

text \<open>The map as it stands before the final sort, and the years of the second
  input; both only name parts of \<^const>\<open>combinedData\<close> for the proofs.\<close>

definition dataMap_of ::
  "YearlyPopulation list \<Rightarrow> RealEstateYearlyData list option \<Rightarrow> (int, CombinedRow) js_map" where
  "dataMap_of populationData realEstateData =
     (case realEstateData of
        None \<Rightarrow> foldl add_population [] populationData
      | Some re \<Rightarrow> foldl add_real_estate (foldl add_population [] populationData) re)"

definition real_estate_years :: "RealEstateYearlyData list option \<Rightarrow> int set" where
  "real_estate_years realEstateData =
     (case realEstateData of None \<Rightarrow> {} | Some re \<Rightarrow> RealEstateYearlyData.year ` set re)"


section \<open>CombinedChart and PopulationChart: the population change\<close>

text \<open>
  \<^verbatim>\<open>popChange\<close> of \<^verbatim>\<open>CombinedChart.tsx\<close> and \<^verbatim>\<open>change\<close> of
  \<^verbatim>\<open>PopulationChart.tsx\<close> read element \<open>0\<close> and element \<open>length - 1\<close> of the
  series and subtract their populations. The subtraction reads
  \<^verbatim>\<open>lastPopYear.population\<close> first; a read on \<^verbatim>\<open>undefined\<close> throws. The
  percentage computed next from the same two elements is a floating-point
  string and is left out.
\<close>

definition popChange :: "YearlyPopulation list \<Rightarrow> js_error + int" where
  "popChange data =
     (let firstPopYear = js_index data 0;
          lastPopYear = js_index data (int (length data) - 1)
      in case lastPopYear of
           None \<Rightarrow> Inl TypeError
         | Some l \<Rightarrow>
             (case firstPopYear of
                None \<Rightarrow> Inl TypeError
              | Some f \<Rightarrow> Inr (YearlyPopulation.population l - YearlyPopulation.population f)))"

definition change :: "YearlyPopulation list \<Rightarrow> js_error + int" where
  "change data =
     (let firstYear = js_index data 0;
          lastYear = js_index data (int (length data) - 1)
      in case lastYear of
           None \<Rightarrow> Inl TypeError
         | Some l \<Rightarrow>
             (case firstYear of
                None \<Rightarrow> Inl TypeError
              | Some f \<Rightarrow> Inr (YearlyPopulation.population l - YearlyPopulation.population f)))"


section \<open>MunicipalitySearch: the filtered list\<close>

text \<open>
  \<^verbatim>\<open>filteredMunicipalities\<close>. The empty search text is falsy and returns the
  first 50 entries unfiltered. \<^verbatim>\<open>String.prototype.toLowerCase\<close> is the
  platform's Unicode case mapping; it is a parameter, so every result holds
  for whatever that mapping does. \<open>ascii_toLowerCase\<close> is one such mapping
  on 8-bit characters, for evaluating examples.
\<close>

definition filteredMunicipalities ::
  "('c list \<Rightarrow> 'c list) \<Rightarrow> 'c MunicipalityListItem list \<Rightarrow> 'c list \<Rightarrow>
   'c MunicipalityListItem list" where
  "filteredMunicipalities toLowerCase municipalities searchText =
     (if searchText = [] then slice0 municipalities 50
      else
        let lower = toLowerCase searchText
        in slice0
             (filter
                (\<lambda>m. str_includes (toLowerCase (municipality m)) lower \<or>
                     str_includes (toLowerCase (prefecture m)) lower \<or>
                     str_includes (code m) searchText)
                municipalities)
             50)"

definition ascii_lower_char :: "char \<Rightarrow> char" where
  "ascii_lower_char c =
     (let n = (of_char c :: nat) in if 65 \<le> n \<and> n \<le> 90 then char_of (n + 32) else c)"

definition ascii_toLowerCase :: "string \<Rightarrow> string" where
  "ascii_toLowerCase s = map ascii_lower_char s"


section \<open>TimeSlider: snapping the slider to an available year\<close>












section \<open>Properties of the response cache\<close>

lemma files_put_other: "k' \<noteq> k \<Longrightarrow> files (snd (put c k' p)) k = files c k"
  by (simp add: put_def)

lemma files_puts_other: "k \<notin> fst ` set kps \<Longrightarrow> files (puts c kps) k = files c k"
proof (induction kps arbitrary: c)
  case Nil
  then show ?case by (simp add: puts_def)
next
  case (Cons kp kps)
  obtain k' p where kp: "kp = (k', p)" by (cases kp)
  from Cons.prems kp have "k' \<noteq> k" and rest: "k \<notin> fst ` set kps" by auto
  have "puts c (kp # kps) = puts (snd (put c k' p)) kps"
    by (simp add: puts_def kp)
  with Cons.IH [OF rest] \<open>k' \<noteq> k\<close> show ?case
    by (simp add: files_put_other)
qed

lemma get_put_same: "writable c \<Longrightarrow> get (snd (put c k p)) k = Inr p"
  by (simp add: get_def put_def)

lemma get_put_other: "k' \<noteq> k \<Longrightarrow> get (snd (put c k' p)) k = get c k"
  by (simp add: get_def files_put_other)

text \<open>
  C7. A \<open>put\<close> that reports success followed by a \<open>get\<close> of the same key returns
  exactly the payload that was stored, and \<open>put\<close> reports success whenever the
  disk accepts the write. Starting from a purged cache, a \<open>get\<close> of a key that
  no \<open>put\<close> of the run named returns \<open>NotFound\<close>.
\<close>

theorem cache_round_trip_and_unwritten_miss:
  "(fst (put c k p) = Inr () \<longrightarrow> get (snd (put c k p)) k = Inr p) \<and>
   (writable c \<longrightarrow> fst (put c k p) = Inr ()) \<and>
   (k \<notin> fst ` set kps \<longrightarrow> get (puts (purged w t) kps) k = Inl NotFound)"
proof (intro conjI impI)
  assume "fst (put c k p) = Inr ()"
  then have "writable c" by (simp add: put_def split: if_splits)
  then show "get (snd (put c k p)) k = Inr p" by (rule get_put_same)
next
  assume "writable c"
  then show "fst (put c k p) = Inr ()" by (simp add: put_def)
next
  assume "k \<notin> fst ` set kps"
  then have "files (puts (purged w t) kps) k = None"
    by (simp add: files_puts_other purged_def)
  then show "get (puts (purged w t) kps) k = Inl NotFound"
    by (simp add: get_def)
qed

theorem cache_round_trip_and_unwritten_miss_witness:
  "fst (put (purged True 0) (derive_key ''census'' [PStr ''0003448237'', PInt 2020]) ''[]'') = Inr () \<and>
   get (snd (put (purged True 0) (derive_key ''census'' [PStr ''0003448237'', PInt 2020]) ''[]''))
       (derive_key ''census'' [PStr ''0003448237'', PInt 2020]) = Inr ''[]'' \<and>
   writable (purged True 0) \<and>
   derive_key ''census'' [PStr ''0003448237'', PInt 2015] \<notin>
     fst ` set [(derive_key ''census'' [PStr ''0003448237'', PInt 2020], ''[]'')] \<and>
   get (puts (purged True 0) [(derive_key ''census'' [PStr ''0003448237'', PInt 2020], ''[]'')])
       (derive_key ''census'' [PStr ''0003448237'', PInt 2015]) = Inl NotFound"
proof -
  let ?k = "derive_key ''census'' [PStr ''0003448237'', PInt 2020]"
  let ?k' = "derive_key ''census'' [PStr ''0003448237'', PInt 2015]"
  let ?p = "''[]''"
  have w: "writable (purged True 0)" by (simp add: purged_def)
  have nk: "?k' \<notin> fst ` set [(?k, ?p)]" by (simp add: derive_key_def)
  have ok: "fst (put (purged True 0) ?k ?p) = Inr ()"
    using cache_round_trip_and_unwritten_miss [where c = "purged True 0" and k = ?k and p = ?p] w
    by blast
  have rt: "get (snd (put (purged True 0) ?k ?p)) ?k = Inr ?p"
    using cache_round_trip_and_unwritten_miss [where c = "purged True 0" and k = ?k and p = ?p] ok
    by blast
  have miss: "get (puts (purged True 0) [(?k, ?p)]) ?k' = Inl NotFound"
    using cache_round_trip_and_unwritten_miss
            [where k = ?k' and kps = "[(?k, ?p)]" and w = True and t = 0] nk
    by blast
  from ok rt w nk miss show ?thesis by blast
qed


section \<open>Properties of the two clients\<close>

lemma live_fetch_all_fail:
  "(\<forall>i<n. attempt_fails upstream normalise tableId y (fetch_count st + i)) \<Longrightarrow>
   fst (live_fetch n (\<lambda>m. upstream m tableId y) normalise k st) = None"
proof (induction n arbitrary: st)
  case 0
  then show ?case by simp
next
  case (Suc n)
  from Suc.prems have now: "attempt_fails upstream normalise tableId y (fetch_count st)"
    by (metis add.right_neutral zero_less_Suc)
  have later: "\<forall>i<n. attempt_fails upstream normalise tableId y (Suc (fetch_count st) + i)"
  proof (intro allI impI)
    fix i assume "i < n"
    then have "Suc i < Suc n" by simp
    with Suc.prems have "attempt_fails upstream normalise tableId y (fetch_count st + Suc i)"
      by blast
    then show "attempt_fails upstream normalise tableId y (Suc (fetch_count st) + i)" by simp
  qed
  show ?case
  proof (cases "classify (upstream (fetch_count st) tableId y)")
    case (Inl e)
    with Suc.IH [of "st\<lparr>fetch_count := Suc (fetch_count st)\<rparr>"] later show ?thesis
      by simp
  next
    case (Inr p)
    with now have "normalise p = None" by (simp add: attempt_fails_def)
    with Inr Suc.IH [of "st\<lparr>fetch_count := Suc (fetch_count st),
        cache := snd (put (cache st) k p)\<rparr>"] later
    show ?thesis by (simp add: Let_def)
  qed
qed

lemma live_fetch_count:
  "fetch_count (snd (live_fetch n up normalise k st)) \<le> fetch_count st + n"
proof (induction n arbitrary: st)
  case 0
  then show ?case by simp
next
  case (Suc n)
  show ?case
  proof (cases "classify (up (fetch_count st))")
    case (Inl e)
    with Suc [of "st\<lparr>fetch_count := Suc (fetch_count st)\<rparr>"] show ?thesis by simp
  next
    case (Inr p)
    with Suc [of "st\<lparr>fetch_count := Suc (fetch_count st),
        cache := snd (put (cache st) k p)\<rparr>"]
    show ?thesis by (cases "normalise p") (simp_all add: Let_def)
  qed
qed

lemma fetchTransactions_counts_requests:
  "(case fetchTransactions \<lparr>censusKeyPresent = False, realEstateKeyPresent = True\<rparr>
           (\<lambda>n c y. if n = 0 then Http 503 [] else Http 200 ''[]'')
           (\<lambda>p. Some [\<lparr>tradeDate = None, providerYear = None, tradePrice = None, unitPrice = None\<rparr>])
           ''13101'' 2019 2020 \<lparr>cache = purged True 0, fetch_count = 0\<rparr> of
      Inl e \<Rightarrow> False
    | Inr (r, st') \<Rightarrow>
        length (records r) = 2 \<and> \<not> degraded r \<and> fetch_count st' = 3 \<and>
        get (cache st') (derive_key ''realestate'' [PStr ''13101'', PInt 2020]) = Inr ''[]'')"
  by (simp add: fetchTransactions_def valid_code_def upto.simps fetch_year_def get_def put_def
      purged_def derive_key_def max_attempts_def numeral_3_eq_3 classify_def Let_def)

text \<open>
  C5. Without the real-estate key, \<open>fetchTransactions\<close> returns the empty
  sequence for every code and year range, as a result and not as an error,
  and the state it returns is the one it was given: no request was counted
  (a counter at zero stays at zero) and the cache was not touched.
\<close>

theorem fetchTransactions_without_key:
  "\<not> realEstateKeyPresent creds \<Longrightarrow>
   \<exists>r. fetchTransactions creds upstream normalise c yearFrom yearTo st = Inr (r, st) \<and>
       records r = []"
  by (simp add: fetchTransactions_def)

theorem fetchTransactions_without_key_witness:
  "\<not> realEstateKeyPresent \<lparr>censusKeyPresent = True, realEstateKeyPresent = False\<rparr> \<and>
   (\<exists>r. fetchTransactions \<lparr>censusKeyPresent = True, realEstateKeyPresent = False\<rparr>
          (\<lambda>n c y. Http 200 ''[]'') (\<lambda>p. Some []) ''13101'' 2015 2020
          \<lparr>cache = purged True 0, fetch_count = 0\<rparr> =
        Inr (r, \<lparr>cache = purged True 0, fetch_count = 0\<rparr>) \<and>
       records r = [])"
proof -
  have h: "\<not> realEstateKeyPresent \<lparr>censusKeyPresent = True, realEstateKeyPresent = False\<rparr>"
    by simp
  from fetchTransactions_without_key [OF h] h show ?thesis by blast
qed

text \<open>
  C6. For a supported year, when the census key is absent, or when every one
  of the three attempts of the live request fails (the upstream is unavailable,
  as with HTTP 500, or its payload does not normalise), \<open>fetchPopulation\<close>
  returns a result and not an error: exactly the static dataset filtered to
  the year, with the degraded-mode indicator set.
\<close>

theorem fetchPopulation_falls_back:
  assumes "y \<in> set supported_years"
    and "\<not> censusKeyPresent creds \<or>
         (\<forall>i<max_attempts. attempt_fails upstream normalise tableId y (fetch_count st + i))"
  shows "\<exists>st'. fetchPopulation creds static tableId upstream normalise y st =
           Inr (\<lparr>records = static_for static y, degraded = True\<rparr>, st')"
proof (cases "censusKeyPresent creds")
  case False
  with assms(1) show ?thesis by (simp add: fetchPopulation_def)
next
  case True
  with assms(2) have "\<forall>i<max_attempts. attempt_fails upstream normalise tableId y (fetch_count st + i)"
    by simp
  then have "fst (live_fetch max_attempts (\<lambda>n. upstream n tableId y) normalise
               (derive_key ''census'' [PStr tableId, PInt y]) st) = None"
    by (rule live_fetch_all_fail)
  then obtain st1 where "live_fetch max_attempts (\<lambda>n. upstream n tableId y) normalise
               (derive_key ''census'' [PStr tableId, PInt y]) st = (None, st1)"
    by (metis prod.collapse)
  with assms(1) True show ?thesis by (simp add: fetchPopulation_def)
qed


theorem fetchPopulation_falls_back_witness:
  "2020 \<in> set supported_years \<and>
   censusKeyPresent \<lparr>censusKeyPresent = True, realEstateKeyPresent = False\<rparr> \<and>
   attempt_fails (\<lambda>n t y. Http 500 []) (\<lambda>p. Some ([] :: PopulationRecord list))
     ''0003448237'' 2020 0 \<and>
   attempt_fails (\<lambda>n t y. Http 500 []) (\<lambda>p. Some ([] :: PopulationRecord list))
     ''0003448237'' 2020 1 \<and>
   attempt_fails (\<lambda>n t y. Http 500 []) (\<lambda>p. Some ([] :: PopulationRecord list))
     ''0003448237'' 2020 2 \<and>
   (\<exists>st'. fetchPopulation \<lparr>censusKeyPresent = True, realEstateKeyPresent = False\<rparr>
            [\<lparr>PopulationRecord.code = ''13101'', prefectureName = ''Tokyo'',
              municipalityName = ''Chiyoda'', year = 2015, population = 58406\<rparr>,
             \<lparr>PopulationRecord.code = ''13101'', prefectureName = ''Tokyo'',
              municipalityName = ''Chiyoda'', year = 2020, population = 66680\<rparr>]
            ''0003448237'' (\<lambda>n t y. Http 500 []) (\<lambda>p. Some []) 2020
            \<lparr>cache = purged True 0, fetch_count = 0\<rparr> =
          Inr (\<lparr>records =
                 [\<lparr>PopulationRecord.code = ''13101'', prefectureName = ''Tokyo'',
                   municipalityName = ''Chiyoda'', year = 2020, population = 66680\<rparr>],
                degraded = True\<rparr>, st'))"
proof -
  let ?creds = "\<lparr>censusKeyPresent = True, realEstateKeyPresent = False\<rparr>"
  let ?up = "\<lambda>(n::nat) (t::string) (y::int). Http 500 []"
  let ?nm = "\<lambda>p::payload. Some ([] :: PopulationRecord list)"
  let ?static = "[\<lparr>PopulationRecord.code = ''13101'', prefectureName = ''Tokyo'',
              municipalityName = ''Chiyoda'', year = 2015, population = 58406\<rparr>,
             \<lparr>PopulationRecord.code = ''13101'', prefectureName = ''Tokyo'',
              municipalityName = ''Chiyoda'', year = 2020, population = 66680\<rparr>]"
  let ?st = "\<lparr>cache = purged True 0, fetch_count = 0\<rparr>"
  have y: "2020 \<in> set supported_years" by (simp add: supported_years_def)
  have f: "attempt_fails ?up ?nm ''0003448237'' 2020 n" for n
    by (simp add: attempt_fails_def classify_def)
  then have h: "\<not> censusKeyPresent ?creds \<or>
      (\<forall>i<max_attempts. attempt_fails ?up ?nm ''0003448237'' 2020 (fetch_count ?st + i))"
    by simp
  have s: "static_for ?static 2020 = [\<lparr>PopulationRecord.code = ''13101'', prefectureName = ''Tokyo'',
              municipalityName = ''Chiyoda'', year = 2020, population = 66680\<rparr>]"
    by (simp add: static_for_def)
  from fetchPopulation_falls_back [OF y h, of ?static] s y f show ?thesis by simp
qed


section \<open>Properties of the yearly aggregation\<close>

lemma round_half_even_nearest:
  assumes "0 < n"
  shows "2 * \<bar>round_half_even s n * n - s\<bar> \<le> n"
proof -
  define q where "q = s div n"
  define r where "r = s mod n"
  have s: "s = q * n + r" by (simp add: q_def r_def)
  have r: "0 \<le> r" "r < n" using assms by (simp_all add: r_def)
  have v: "round_half_even s n =
      (if 2 * r < n then q else if n < 2 * r then q + 1 else if even q then q else q + 1)"
    by (simp add: round_half_even_def q_def r_def)
  have lo: "q * n - s = - r" using s by simp
  have hi: "(q + 1) * n - s = n - r" using s by (simp add: algebra_simps)
  consider "round_half_even s n = q" "2 * r \<le> n" | "round_half_even s n = q + 1" "n \<le> 2 * r"
    unfolding v by (cases "2 * r < n"; cases "n < 2 * r"; cases "even q") simp_all
  then show ?thesis
  proof cases
    case 1
    with lo r show ?thesis by simp
  next
    case 2
    with hi r show ?thesis by simp
  qed
qed

lemma map_filter_empty_iff: "List.map_filter f xs = [] \<longleftrightarrow> (\<forall>x\<in>set xs. f x = None)"
  by (induction xs) (auto simp: map_filter_simps split: option.splits)

lemma set_map_filter: "set (List.map_filter f xs) = {y. \<exists>x\<in>set xs. f x = Some y}"
  by (induction xs) (auto simp: map_filter_simps split: option.splits)

lemma summarized_years:
  "set (sort (remdups (List.map_filter (transaction_year yod) ts))) =
     {y. year_group yod ts y \<noteq> []}"
  by (auto simp: set_map_filter year_group_def filter_empty_conv)

lemma summarize_year_fields:
  "RealEstateYearlySummary.year (summarize_year yod c ts y) = y"
  "transactionCount (summarize_year yod c ts y) = length (year_group yod ts y)"
  "avgUnitPrice (summarize_year yod c ts y) = None \<longleftrightarrow>
     (\<forall>t\<in>set (year_group yod ts y). unitPrice t = None)"
  "minUnitPrice (summarize_year yod c ts y) = None \<longleftrightarrow>
     (\<forall>t\<in>set (year_group yod ts y). unitPrice t = None)"
  "maxUnitPrice (summarize_year yod c ts y) = None \<longleftrightarrow>
     (\<forall>t\<in>set (year_group yod ts y). unitPrice t = None)"
proof -
  let ?prices = "List.map_filter unitPrice (year_group yod ts y)"
  have e: "?prices = [] \<longleftrightarrow> (\<forall>t\<in>set (year_group yod ts y). unitPrice t = None)"
    by (rule map_filter_empty_iff)
  show "RealEstateYearlySummary.year (summarize_year yod c ts y) = y"
    by (simp add: summarize_year_def Let_def)
  show "transactionCount (summarize_year yod c ts y) = length (year_group yod ts y)"
    by (simp add: summarize_year_def Let_def)
  have "avgUnitPrice (summarize_year yod c ts y) = None \<longleftrightarrow> ?prices = []"
    by (cases ?prices) (simp_all add: summarize_year_def Let_def)
  with e show "avgUnitPrice (summarize_year yod c ts y) = None \<longleftrightarrow>
     (\<forall>t\<in>set (year_group yod ts y). unitPrice t = None)" by simp
  have "minUnitPrice (summarize_year yod c ts y) = None \<longleftrightarrow> ?prices = []"
    by (cases ?prices) (simp_all add: summarize_year_def Let_def)
  with e show "minUnitPrice (summarize_year yod c ts y) = None \<longleftrightarrow>
     (\<forall>t\<in>set (year_group yod ts y). unitPrice t = None)" by simp
  have "maxUnitPrice (summarize_year yod c ts y) = None \<longleftrightarrow> ?prices = []"
    by (cases ?prices) (simp_all add: summarize_year_def Let_def)
  with e show "maxUnitPrice (summarize_year yod c ts y) = None \<longleftrightarrow>
     (\<forall>t\<in>set (year_group yod ts y). unitPrice t = None)" by simp
qed

text \<open>
  C3. In every summary that \<open>summarize\<close> produces, the transaction count is
  the size of the year group and is positive, and each of the three price
  fields is absent exactly when the count is 0 or every transaction of the
  group lacks its unit price. In particular a year whose transactions all lack
  the unit price has a summary, with a positive count and the three price
  fields absent.
\<close>

theorem summarize_prices_absent_iff:
  "(\<forall>s\<in>set (summarize yod ts c).
      transactionCount s = length (year_group yod ts (RealEstateYearlySummary.year s)) \<and>
      0 < transactionCount s \<and>
      (avgUnitPrice s = None \<longleftrightarrow>
         transactionCount s = 0 \<or>
         (\<forall>t\<in>set (year_group yod ts (RealEstateYearlySummary.year s)). unitPrice t = None)) \<and>
      (minUnitPrice s = None \<longleftrightarrow>
         transactionCount s = 0 \<or>
         (\<forall>t\<in>set (year_group yod ts (RealEstateYearlySummary.year s)). unitPrice t = None)) \<and>
      (maxUnitPrice s = None \<longleftrightarrow>
         transactionCount s = 0 \<or>
         (\<forall>t\<in>set (year_group yod ts (RealEstateYearlySummary.year s)). unitPrice t = None))) \<and>
   (\<forall>y. year_group yod ts y \<noteq> [] \<and> (\<forall>t\<in>set (year_group yod ts y). unitPrice t = None) \<longrightarrow>
      (\<exists>s\<in>set (summarize yod ts c).
         RealEstateYearlySummary.year s = y \<and> 0 < transactionCount s \<and>
         avgUnitPrice s = None \<and> minUnitPrice s = None \<and> maxUnitPrice s = None))"
proof (intro conjI ballI allI impI)
  fix s assume "s \<in> set (summarize yod ts c)"
  then obtain y where y: "year_group yod ts y \<noteq> []" and s: "s = summarize_year yod c ts y"
    using summarized_years [of yod ts] by (auto simp: summarize_def)
  show "transactionCount s = length (year_group yod ts (RealEstateYearlySummary.year s))"
    by (simp add: s summarize_year_fields)
  show "0 < transactionCount s"
    using y by (simp add: s summarize_year_fields)
  show "avgUnitPrice s = None \<longleftrightarrow>
         transactionCount s = 0 \<or>
         (\<forall>t\<in>set (year_group yod ts (RealEstateYearlySummary.year s)). unitPrice t = None)"
    using y by (simp add: s summarize_year_fields)
  show "minUnitPrice s = None \<longleftrightarrow>
         transactionCount s = 0 \<or>
         (\<forall>t\<in>set (year_group yod ts (RealEstateYearlySummary.year s)). unitPrice t = None)"
    using y by (simp add: s summarize_year_fields)
  show "maxUnitPrice s = None \<longleftrightarrow>
         transactionCount s = 0 \<or>
         (\<forall>t\<in>set (year_group yod ts (RealEstateYearlySummary.year s)). unitPrice t = None)"
    using y by (simp add: s summarize_year_fields)
next
  fix y
  assume a: "year_group yod ts y \<noteq> [] \<and> (\<forall>t\<in>set (year_group yod ts y). unitPrice t = None)"
  then have "summarize_year yod c ts y \<in> set (summarize yod ts c)"
    using summarized_years [of yod ts] by (auto simp: summarize_def simp del: set_sort set_remdups)
  moreover from a have "RealEstateYearlySummary.year (summarize_year yod c ts y) = y \<and>
      0 < transactionCount (summarize_year yod c ts y) \<and>
      avgUnitPrice (summarize_year yod c ts y) = None \<and>
      minUnitPrice (summarize_year yod c ts y) = None \<and>
      maxUnitPrice (summarize_year yod c ts y) = None"
    by (simp add: summarize_year_fields)
  ultimately show "\<exists>s\<in>set (summarize yod ts c).
         RealEstateYearlySummary.year s = y \<and> 0 < transactionCount s \<and>
         avgUnitPrice s = None \<and> minUnitPrice s = None \<and> maxUnitPrice s = None"
    by blast
qed


theorem summarize_prices_absent_iff_witness:
  "year_group year_prefix
     [\<lparr>tradeDate = None, providerYear = Some 2020, tradePrice = None, unitPrice = None\<rparr>,
      \<lparr>tradeDate = Some ''2015-04-01'', providerYear = None, tradePrice = Some 30, unitPrice = Some 3\<rparr>,
      \<lparr>tradeDate = Some ''2015-07-01'', providerYear = None, tradePrice = Some 40, unitPrice = Some 4\<rparr>,
      \<lparr>tradeDate = Some ''2015-10-01'', providerYear = None, tradePrice = Some 50, unitPrice = None\<rparr>,
      \<lparr>tradeDate = None, providerYear = None, tradePrice = None, unitPrice = Some 9\<rparr>] 2020 =
     [\<lparr>tradeDate = None, providerYear = Some 2020, tradePrice = None, unitPrice = None\<rparr>] \<and>
   summarize year_prefix
     [\<lparr>tradeDate = None, providerYear = Some 2020, tradePrice = None, unitPrice = None\<rparr>,
      \<lparr>tradeDate = Some ''2015-04-01'', providerYear = None, tradePrice = Some 30, unitPrice = Some 3\<rparr>,
      \<lparr>tradeDate = Some ''2015-07-01'', providerYear = None, tradePrice = Some 40, unitPrice = Some 4\<rparr>,
      \<lparr>tradeDate = Some ''2015-10-01'', providerYear = None, tradePrice = Some 50, unitPrice = None\<rparr>,
      \<lparr>tradeDate = None, providerYear = None, tradePrice = None, unitPrice = Some 9\<rparr>] ''13101'' =
     [\<lparr>RealEstateYearlySummary.code = ''13101'', year = 2015, transactionCount = 3,
       avgUnitPrice = Some 4, minUnitPrice = Some 3, maxUnitPrice = Some 4\<rparr>,
      \<lparr>RealEstateYearlySummary.code = ''13101'', year = 2020, transactionCount = 1,
       avgUnitPrice = None, minUnitPrice = None, maxUnitPrice = None\<rparr>] \<and>
   (\<exists>s. s \<in> set (summarize year_prefix
     [\<lparr>tradeDate = None, providerYear = Some 2020, tradePrice = None, unitPrice = None\<rparr>,
      \<lparr>tradeDate = Some ''2015-04-01'', providerYear = None, tradePrice = Some 30, unitPrice = Some 3\<rparr>,
      \<lparr>tradeDate = Some ''2015-07-01'', providerYear = None, tradePrice = Some 40, unitPrice = Some 4\<rparr>,
      \<lparr>tradeDate = Some ''2015-10-01'', providerYear = None, tradePrice = Some 50, unitPrice = None\<rparr>,
      \<lparr>tradeDate = None, providerYear = None, tradePrice = None, unitPrice = Some 9\<rparr>] ''13101'') \<and>
      RealEstateYearlySummary.year s = 2020 \<and> 0 < transactionCount s \<and>
      avgUnitPrice s = None \<and> minUnitPrice s = None \<and> maxUnitPrice s = None)"
proof -
  let ?t = "\<lparr>tradeDate = None, providerYear = Some 2020, tradePrice = None, unitPrice = None\<rparr>"
  let ?ts = "[?t,
      \<lparr>tradeDate = Some ''2015-04-01'', providerYear = None, tradePrice = Some 30, unitPrice = Some 3\<rparr>,
      \<lparr>tradeDate = Some ''2015-07-01'', providerYear = None, tradePrice = Some 40, unitPrice = Some 4\<rparr>,
      \<lparr>tradeDate = Some ''2015-10-01'', providerYear = None, tradePrice = Some 50, unitPrice = None\<rparr>,
      \<lparr>tradeDate = None, providerYear = None, tradePrice = None, unitPrice = Some 9\<rparr>]"
  have g: "year_group year_prefix ?ts 2020 = [?t]"
    by code_simp
  have run: "summarize year_prefix ?ts ''13101'' =
     [\<lparr>RealEstateYearlySummary.code = ''13101'', year = 2015, transactionCount = 3,
       avgUnitPrice = Some 4, minUnitPrice = Some 3, maxUnitPrice = Some 4\<rparr>,
      \<lparr>RealEstateYearlySummary.code = ''13101'', year = 2020, transactionCount = 1,
       avgUnitPrice = None, minUnitPrice = None, maxUnitPrice = None\<rparr>]"
    by code_simp
  have h: "year_group year_prefix ?ts 2020 \<noteq> [] \<and>
           (\<forall>t\<in>set (year_group year_prefix ?ts 2020). unitPrice t = None)"
    by (simp only: g) simp
  from summarize_prices_absent_iff [of year_prefix ?ts "''13101''"] h
  have "\<exists>s\<in>set (summarize year_prefix ?ts ''13101'').
         RealEstateYearlySummary.year s = 2020 \<and> 0 < transactionCount s \<and>
         avgUnitPrice s = None \<and> minUnitPrice s = None \<and> maxUnitPrice s = None"
    by blast
  then have "\<exists>s. s \<in> set (summarize year_prefix ?ts ''13101'') \<and>
         RealEstateYearlySummary.year s = 2020 \<and> 0 < transactionCount s \<and>
         avgUnitPrice s = None \<and> minUnitPrice s = None \<and> maxUnitPrice s = None"
    by blast
  with g run show ?thesis by blast
qed


section \<open>Properties of the join\<close>

subsection \<open>The insertion-ordered map\<close>

lemma map_fst_map_set:
  "map fst (map_set m k v) = (if k \<in> fst ` set m then map fst m else map fst m @ [k])"
  by (induction m) force+

lemma map_of_map_set: "map_of (map_set m k v) = (map_of m)(k \<mapsto> v)"
  by (induction m) auto

lemma distinct_map_set: "distinct (map fst m) \<Longrightarrow> distinct (map fst (map_set m k v))"
  by (simp add: map_fst_map_set)

lemma set_map_set_sub: "set (map_set m k v) \<subseteq> insert (k, v) (set m)"
  by (induction m) (auto split: if_splits)

lemma keyed_map_set:
  "\<forall>p\<in>set m. CombinedRow.year (snd p) = fst p \<Longrightarrow> CombinedRow.year v = k \<Longrightarrow>
   \<forall>p\<in>set (map_set m k v). CombinedRow.year (snd p) = fst p"
  using set_map_set_sub [of m k v] by auto

lemma year_existing:
  "\<forall>p\<in>set m. CombinedRow.year (snd p) = fst p \<Longrightarrow>
   CombinedRow.year (case map_get m k of Some e \<Rightarrow> e
      | None \<Rightarrow> \<lparr>year = k, population = None, avg_unit_price = None, transaction_count = None\<rparr>) = k"
  by (auto simp: map_get_def split: option.splits dest!: map_of_SomeD)

lemma wf_add_population:
  assumes "distinct (map fst m)" "\<forall>p\<in>set m. CombinedRow.year (snd p) = fst p"
  shows "distinct (map fst (add_population m d))"
    and "\<forall>p\<in>set (add_population m d). CombinedRow.year (snd p) = fst p"
    and "set (map fst (add_population m d)) = insert (YearlyPopulation.year d) (set (map fst m))"
proof -
  show "distinct (map fst (add_population m d))"
    using assms(1) by (simp add: add_population_def distinct_map_set)
  show "\<forall>p\<in>set (add_population m d). CombinedRow.year (snd p) = fst p"
    unfolding add_population_def by (rule keyed_map_set [OF assms(2)]) simp
  show "set (map fst (add_population m d)) = insert (YearlyPopulation.year d) (set (map fst m))"
    by (auto simp: add_population_def map_fst_map_set)
qed

lemma wf_add_real_estate:
  assumes "distinct (map fst m)" "\<forall>p\<in>set m. CombinedRow.year (snd p) = fst p"
  shows "distinct (map fst (add_real_estate m d))"
    and "\<forall>p\<in>set (add_real_estate m d). CombinedRow.year (snd p) = fst p"
    and "set (map fst (add_real_estate m d)) = insert (RealEstateYearlyData.year d) (set (map fst m))"
proof -
  show "distinct (map fst (add_real_estate m d))"
    using assms(1) by (simp add: add_real_estate_def Let_def distinct_map_set)
  show "\<forall>p\<in>set (add_real_estate m d). CombinedRow.year (snd p) = fst p"
    unfolding add_real_estate_def Let_def
    by (rule keyed_map_set [OF assms(2)]) (simp add: year_existing [OF assms(2)])
  show "set (map fst (add_real_estate m d)) = insert (RealEstateYearlyData.year d) (set (map fst m))"
    by (auto simp: add_real_estate_def Let_def map_fst_map_set)
qed

lemma wf_foldl_add_population:
  "distinct (map fst m) \<Longrightarrow> \<forall>p\<in>set m. CombinedRow.year (snd p) = fst p \<Longrightarrow>
   distinct (map fst (foldl add_population m ps)) \<and>
   (\<forall>p\<in>set (foldl add_population m ps). CombinedRow.year (snd p) = fst p) \<and>
   set (map fst (foldl add_population m ps)) = set (map fst m) \<union> YearlyPopulation.year ` set ps"
proof (induction ps arbitrary: m)
  case Nil
  then show ?case by simp
next
  case (Cons d ps)
  note step = wf_add_population [OF Cons.prems, of d]
  from Cons.IH [OF step(1) step(2)] show ?case
    by (simp add: step(3) del: set_map) 
qed

lemma wf_foldl_add_real_estate:
  "distinct (map fst m) \<Longrightarrow> \<forall>p\<in>set m. CombinedRow.year (snd p) = fst p \<Longrightarrow>
   distinct (map fst (foldl add_real_estate m rs)) \<and>
   (\<forall>p\<in>set (foldl add_real_estate m rs). CombinedRow.year (snd p) = fst p) \<and>
   set (map fst (foldl add_real_estate m rs)) = set (map fst m) \<union> RealEstateYearlyData.year ` set rs"
proof (induction rs arbitrary: m)
  case Nil
  then show ?case by simp
next
  case (Cons d rs)
  note step = wf_add_real_estate [OF Cons.prems, of d]
  from Cons.IH [OF step(1) step(2)] show ?case
    by (simp add: step(3) del: set_map)
qed

lemma combinedData_dataMap: "combinedData ps re = sort_key CombinedRow.year (map snd (dataMap_of ps re))"
  by (simp add: combinedData_def dataMap_of_def map_values_def Let_def split: option.splits)

lemma wf_dataMap_of:
  "distinct (map fst (dataMap_of ps re))"
  "\<forall>p\<in>set (dataMap_of ps re). CombinedRow.year (snd p) = fst p"
  "set (map fst (dataMap_of ps re)) =
     YearlyPopulation.year ` set ps \<union> (case re of None \<Rightarrow> {} | Some rs \<Rightarrow> RealEstateYearlyData.year ` set rs)"
proof -
  have p: "distinct (map fst (foldl add_population [] ps)) \<and>
   (\<forall>p\<in>set (foldl add_population [] ps). CombinedRow.year (snd p) = fst p) \<and>
   set (map fst (foldl add_population [] ps)) = set (map fst []) \<union> YearlyPopulation.year ` set ps"
    using wf_foldl_add_population [of "[]" ps] by simp
  show "distinct (map fst (dataMap_of ps re))"
    using p wf_foldl_add_real_estate [of "foldl add_population [] ps"]
    by (cases re) (simp_all add: dataMap_of_def)
  show "\<forall>p\<in>set (dataMap_of ps re). CombinedRow.year (snd p) = fst p"
    using p wf_foldl_add_real_estate [of "foldl add_population [] ps"]
    by (cases re) (simp_all add: dataMap_of_def)
  show "set (map fst (dataMap_of ps re)) =
     YearlyPopulation.year ` set ps \<union> (case re of None \<Rightarrow> {} | Some rs \<Rightarrow> RealEstateYearlyData.year ` set rs)"
  proof (cases re)
    case None
    then show ?thesis using p by (simp add: dataMap_of_def)
  next
    case (Some rs)
    from p wf_foldl_add_real_estate [of "foldl add_population [] ps" rs]
    have "set (map fst (foldl add_real_estate (foldl add_population [] ps) rs)) =
      set (map fst (foldl add_population [] ps)) \<union> RealEstateYearlyData.year ` set rs"
      by blast
    with p Some show ?thesis by (simp add: dataMap_of_def del: set_map)
  qed
qed

lemma map_year_values:
  "\<forall>p\<in>set m. CombinedRow.year (snd p) = fst p \<Longrightarrow> map CombinedRow.year (map snd m) = map fst m"
  by (induction m) auto

lemma map_of_add_population_other:
  "YearlyPopulation.year d \<noteq> y \<Longrightarrow> map_of (add_population m d) y = map_of m y"
  by (simp add: add_population_def map_of_map_set)

lemma map_of_add_real_estate_other:
  "RealEstateYearlyData.year d \<noteq> y \<Longrightarrow> map_of (add_real_estate m d) y = map_of m y"
  by (simp add: add_real_estate_def Let_def map_of_map_set)

lemma map_of_foldl_add_real_estate_other:
  "y \<notin> RealEstateYearlyData.year ` set rs \<Longrightarrow>
   map_of (foldl add_real_estate m rs) y = map_of m y"
  by (induction rs arbitrary: m) (auto simp: map_of_add_real_estate_other)

lemma map_of_foldl_add_population_other:
  "y \<notin> YearlyPopulation.year ` set ps \<Longrightarrow>
   map_of (foldl add_population m ps) y = map_of m y"
  by (induction ps arbitrary: m) (auto simp: map_of_add_population_other)

lemma map_of_add_population_same:
  "map_of (add_population m d) (YearlyPopulation.year d) =
     Some \<lparr>year = YearlyPopulation.year d, population = Some (YearlyPopulation.population d),
           avg_unit_price = None, transaction_count = None\<rparr>"
  by (simp add: add_population_def map_of_map_set)

lemma map_of_add_real_estate_same:
  "map_of (add_real_estate m d) (RealEstateYearlyData.year d) =
     Some ((case map_of m (RealEstateYearlyData.year d) of
              Some e \<Rightarrow> e
            | None \<Rightarrow> \<lparr>year = RealEstateYearlyData.year d, population = None,
                       avg_unit_price = None, transaction_count = None\<rparr>)
           \<lparr>avg_unit_price := Some (RealEstateYearlyData.avg_unit_price d),
            transaction_count := Some (RealEstateYearlyData.transaction_count d)\<rparr>)"
  by (simp add: add_real_estate_def Let_def map_of_map_set map_get_def)

lemma map_of_foldl_add_population:
  "y \<in> YearlyPopulation.year ` set ps \<Longrightarrow>
     \<exists>d\<in>set ps. YearlyPopulation.year d = y \<and>
        (\<exists>e. map_of (foldl add_population m ps) y = Some e \<and>
           CombinedRow.population e = Some (YearlyPopulation.population d) \<and>
           CombinedRow.avg_unit_price e = None \<and>
           CombinedRow.transaction_count e = None)"
proof (induction ps arbitrary: m rule: rev_induct)
  case Nil
  then show ?case by simp
next
  case (snoc d ps)
  show ?case
  proof (cases "YearlyPopulation.year d = y")
    case True
    then show ?thesis
      using map_of_add_population_same [of "foldl add_population m ps" d] by auto
  next
    case False
    with snoc.prems have "y \<in> YearlyPopulation.year ` set ps" by auto
    from snoc.IH [OF this, of m] False show ?thesis
      by (auto simp: map_of_add_population_other)
  qed
qed

lemma map_of_foldl_add_real_estate:
  assumes "case map_of m y of None \<Rightarrow> True
           | Some e \<Rightarrow> CombinedRow.population e = None"
      and "y \<in> RealEstateYearlyData.year ` set rs"
  shows "\<exists>d\<in>set rs. RealEstateYearlyData.year d = y \<and>
           (\<exists>e. map_of (foldl add_real_estate m rs) y = Some e \<and>
              CombinedRow.population e = None \<and>
              CombinedRow.avg_unit_price e = Some (RealEstateYearlyData.avg_unit_price d) \<and>
              CombinedRow.transaction_count e = Some (RealEstateYearlyData.transaction_count d))"
  using assms
proof (induction rs arbitrary: m rule: rev_induct)
  case Nil
  then show ?case by simp
next
  case (snoc d rs)
  let ?m' = "foldl add_real_estate m rs"
  show ?case
  proof (cases "RealEstateYearlyData.year d = y")
    case True
    have keep: "case map_of ?m' y of None \<Rightarrow> True
           | Some e \<Rightarrow> CombinedRow.population e = None"
    proof (cases "y \<in> RealEstateYearlyData.year ` set rs")
      case True
      from snoc.IH [OF snoc.prems(1) True] show ?thesis by auto
    next
      case False
      then show ?thesis
        using snoc.prems(1) by (simp add: map_of_foldl_add_real_estate_other)
    qed
    have "\<exists>e. map_of (add_real_estate ?m' d) y = Some e \<and>
              CombinedRow.population e = None \<and>
              CombinedRow.avg_unit_price e = Some (RealEstateYearlyData.avg_unit_price d) \<and>
              CombinedRow.transaction_count e = Some (RealEstateYearlyData.transaction_count d)"
      using keep map_of_add_real_estate_same [of ?m' d] True
      by (cases "map_of ?m' y") auto
    with True show ?thesis by auto
  next
    case False
    with snoc.prems(2) have "y \<in> RealEstateYearlyData.year ` set rs" by auto
    from snoc.IH [OF snoc.prems(1) this] False show ?thesis
      by (auto simp: map_of_add_real_estate_other)
  qed
qed

lemma filter_year_values:
  "distinct (map fst m) \<Longrightarrow> \<forall>p\<in>set m. CombinedRow.year (snd p) = fst p \<Longrightarrow>
   filter (\<lambda>r. CombinedRow.year r = y) (map snd m) =
     (case map_of m y of None \<Rightarrow> [] | Some r \<Rightarrow> [r])"
proof (induction m)
  case Nil
  then show ?case by simp
next
  case (Cons p m)
  obtain k v where p: "p = (k, v)" by (cases p)
  show ?case
  proof (cases "k = y")
    case True
    with Cons.prems p have "map_of m y = None"
      by (simp add: map_of_eq_None_iff)
    with Cons True p show ?thesis by simp
  next
    case False
    with Cons p show ?thesis by simp
  qed
qed

lemma filter_year_combinedData:
  "filter (\<lambda>r. CombinedRow.year r = y) (combinedData ps re) =
     (case map_of (dataMap_of ps re) y of None \<Rightarrow> [] | Some r \<Rightarrow> [r])"
proof -
  have "filter (\<lambda>r. CombinedRow.year r = y) (combinedData ps re) =
        sort_key CombinedRow.year (filter (\<lambda>r. CombinedRow.year r = y) (map snd (dataMap_of ps re)))"
    by (simp only: combinedData_dataMap filter_sort)
  also have "\<dots> = sort_key CombinedRow.year (case map_of (dataMap_of ps re) y of None \<Rightarrow> [] | Some r \<Rightarrow> [r])"
    by (simp only: filter_year_values [OF wf_dataMap_of(1) wf_dataMap_of(2)])
  also have "\<dots> = (case map_of (dataMap_of ps re) y of None \<Rightarrow> [] | Some r \<Rightarrow> [r])"
    by (simp split: option.splits)
  finally show ?thesis .
qed


subsection \<open>Claims about the join\<close>

text \<open>
  C1. For every population series and every real-estate series (also when
  there is none), the rows returned by \<^const>\<open>combinedData\<close> are sorted by year
  ascending, no year occurs twice, and the years that occur are exactly those
  of the population series together with those of the real-estate series. The
  inputs are arbitrary lists, so no arrival order changes this.
\<close>

theorem combinedData_sorted_union:
  "sorted (map CombinedRow.year (combinedData populationData realEstateData)) \<and>
   distinct (map CombinedRow.year (combinedData populationData realEstateData)) \<and>
   set (map CombinedRow.year (combinedData populationData realEstateData)) =
     YearlyPopulation.year ` set populationData \<union>
     (case realEstateData of None \<Rightarrow> {} | Some re \<Rightarrow> RealEstateYearlyData.year ` set re)"
proof -
  let ?m = "dataMap_of populationData realEstateData"
  have ys: "map CombinedRow.year (map snd ?m) = map fst ?m"
    by (rule map_year_values) (rule wf_dataMap_of(2))
  have d: "distinct (map CombinedRow.year (map snd ?m))"
    unfolding ys by (rule wf_dataMap_of(1))
  have "distinct (map CombinedRow.year (sort_key CombinedRow.year (map snd ?m)))"
    using d by (simp add: distinct_map del: map_map)
  moreover have "set (map CombinedRow.year (sort_key CombinedRow.year (map snd ?m))) = set (map fst ?m)"
    using ys by (metis set_map set_sort)
  ultimately show ?thesis
    by (simp only: combinedData_dataMap sorted_sort_key wf_dataMap_of(3) simp_thms)
qed



text \<open>
  C2. A year that only the population series has yields exactly one row, with
  a population and with \<open>avg_unit_price\<close> and \<open>transaction_count\<close> absent; a
  year that only the real-estate series has yields exactly one row, with
  \<open>population\<close> absent and both real-estate fields present.
\<close>

theorem combinedData_one_sided_year:
  "(y \<in> YearlyPopulation.year ` set populationData \<and> y \<notin> real_estate_years realEstateData \<longrightarrow>
      (\<exists>r. filter (\<lambda>r. CombinedRow.year r = y) (combinedData populationData realEstateData) = [r] \<and>
           CombinedRow.population r \<noteq> None \<and>
           CombinedRow.avg_unit_price r = None \<and>
           CombinedRow.transaction_count r = None)) \<and>
   (y \<notin> YearlyPopulation.year ` set populationData \<and> y \<in> real_estate_years realEstateData \<longrightarrow>
      (\<exists>r. filter (\<lambda>r. CombinedRow.year r = y) (combinedData populationData realEstateData) = [r] \<and>
           CombinedRow.population r = None \<and>
           CombinedRow.avg_unit_price r \<noteq> None \<and>
           CombinedRow.transaction_count r \<noteq> None))"
proof (intro conjI impI)
  assume a: "y \<in> YearlyPopulation.year ` set populationData \<and> y \<notin> real_estate_years realEstateData"
  from a have "y \<in> YearlyPopulation.year ` set populationData" by simp
  from map_of_foldl_add_population [OF this, of "[]"]
  obtain e where d: "map_of (foldl add_population [] populationData) y = Some e"
    "CombinedRow.population e \<noteq> None" "CombinedRow.avg_unit_price e = None"
    "CombinedRow.transaction_count e = None"
    by auto
  have "map_of (dataMap_of populationData realEstateData) y = map_of (foldl add_population [] populationData) y"
    using a by (cases realEstateData)
      (simp_all add: dataMap_of_def real_estate_years_def map_of_foldl_add_real_estate_other)
  with d show "\<exists>r. filter (\<lambda>r. CombinedRow.year r = y) (combinedData populationData realEstateData) = [r] \<and>
           CombinedRow.population r \<noteq> None \<and>
           CombinedRow.avg_unit_price r = None \<and>
           CombinedRow.transaction_count r = None"
    by (simp add: filter_year_combinedData)
next
  assume a: "y \<notin> YearlyPopulation.year ` set populationData \<and> y \<in> real_estate_years realEstateData"
  then obtain re where re: "realEstateData = Some re" "y \<in> RealEstateYearlyData.year ` set re"
    by (cases realEstateData) (auto simp: real_estate_years_def)
  from a map_of_foldl_add_population_other [of y populationData "[]"]
  have "map_of (foldl add_population [] populationData) y = None" by simp
  then have "case map_of (foldl add_population [] populationData) y of None \<Rightarrow> True
           | Some e \<Rightarrow> CombinedRow.population e = None" by simp
  from map_of_foldl_add_real_estate [OF this re(2)]
  obtain e where "map_of (dataMap_of populationData realEstateData) y = Some e"
     "CombinedRow.population e = None" "CombinedRow.avg_unit_price e \<noteq> None"
     "CombinedRow.transaction_count e \<noteq> None"
    using re(1) by (auto simp: dataMap_of_def)
  then show "\<exists>r. filter (\<lambda>r. CombinedRow.year r = y) (combinedData populationData realEstateData) = [r] \<and>
           CombinedRow.population r = None \<and>
           CombinedRow.avg_unit_price r \<noteq> None \<and>
           CombinedRow.transaction_count r \<noteq> None"
    by (simp add: filter_year_combinedData)
qed


theorem combinedData_one_sided_year_witness:
  "((2020 \<in> YearlyPopulation.year `
        set [\<lparr>YearlyPopulation.year = 2015, population = 100000\<rparr>,
             \<lparr>YearlyPopulation.year = 2020, population = 95000\<rparr>] \<and>
     2020 \<notin> real_estate_years
        (Some [\<lparr>RealEstateYearlyData.year = 2010, transaction_count = 4,
                avg_unit_price = 300000, min_unit_price = 200000,
                max_unit_price = 400000\<rparr>])) \<and>
    (\<exists>r. filter (\<lambda>r. CombinedRow.year r = 2020)
           (combinedData
              [\<lparr>YearlyPopulation.year = 2015, population = 100000\<rparr>,
               \<lparr>YearlyPopulation.year = 2020, population = 95000\<rparr>]
              (Some [\<lparr>RealEstateYearlyData.year = 2010, transaction_count = 4,
                      avg_unit_price = 300000, min_unit_price = 200000,
                      max_unit_price = 400000\<rparr>])) = [r] \<and>
         CombinedRow.population r \<noteq> None \<and>
         CombinedRow.avg_unit_price r = None \<and>
         CombinedRow.transaction_count r = None)) \<and>
   ((2010 \<notin> YearlyPopulation.year `
        set [\<lparr>YearlyPopulation.year = 2015, population = 100000\<rparr>,
             \<lparr>YearlyPopulation.year = 2020, population = 95000\<rparr>] \<and>
     2010 \<in> real_estate_years
        (Some [\<lparr>RealEstateYearlyData.year = 2010, transaction_count = 4,
                avg_unit_price = 300000, min_unit_price = 200000,
                max_unit_price = 400000\<rparr>])) \<and>
    (\<exists>r. filter (\<lambda>r. CombinedRow.year r = 2010)
           (combinedData
              [\<lparr>YearlyPopulation.year = 2015, population = 100000\<rparr>,
               \<lparr>YearlyPopulation.year = 2020, population = 95000\<rparr>]
              (Some [\<lparr>RealEstateYearlyData.year = 2010, transaction_count = 4,
                      avg_unit_price = 300000, min_unit_price = 200000,
                      max_unit_price = 400000\<rparr>])) = [r] \<and>
         CombinedRow.population r = None \<and>
         CombinedRow.avg_unit_price r \<noteq> None \<and>
         CombinedRow.transaction_count r \<noteq> None))"
proof -
  let ?ps = "[\<lparr>YearlyPopulation.year = 2015, population = 100000\<rparr>,
              \<lparr>YearlyPopulation.year = 2020, population = 95000\<rparr>]"
  let ?re = "Some [\<lparr>RealEstateYearlyData.year = 2010, transaction_count = 4,
                avg_unit_price = 300000, min_unit_price = 200000,
                max_unit_price = 400000\<rparr>]"
  have h1: "2020 \<in> YearlyPopulation.year ` set ?ps \<and> 2020 \<notin> real_estate_years ?re"
    by (simp add: real_estate_years_def)
  have h2: "2010 \<notin> YearlyPopulation.year ` set ?ps \<and> 2010 \<in> real_estate_years ?re"
    by (simp add: real_estate_years_def)
  from combinedData_one_sided_year [of 2020 ?ps ?re] combinedData_one_sided_year [of 2010 ?ps ?re] h1 h2
  show ?thesis by blast
qed

text \<open>
  C4. The scenario of the specification: population \<open>[(2015, 100000),
  (2020, 95000)]\<close> and real estate \<open>[(2015, count 10, average 500000)]\<close> join to
  the row of 2015 with all three values followed by the row of 2020 with the
  population only. The minimum and maximum unit price of the real-estate
  record are not part of the scenario and are arbitrary.
\<close>

theorem combinedData_scenario:
  "combinedData
     [\<lparr>YearlyPopulation.year = 2015, population = 100000\<rparr>,
      \<lparr>YearlyPopulation.year = 2020, population = 95000\<rparr>]
     (Some [\<lparr>RealEstateYearlyData.year = 2015, transaction_count = 10,
             avg_unit_price = 500000, min_unit_price = lo, max_unit_price = hi\<rparr>]) =
   [\<lparr>CombinedRow.year = 2015, population = Some 100000,
     avg_unit_price = Some 500000, transaction_count = Some 10\<rparr>,
    \<lparr>CombinedRow.year = 2020, population = Some 95000,
     avg_unit_price = None, transaction_count = None\<rparr>]"
  by (simp add: combinedData_def add_population_def add_real_estate_def
      map_get_def map_values_def)


section \<open>Properties of the population change\<close>

lemma js_index_first: "data \<noteq> [] \<Longrightarrow> js_index data 0 = Some (hd data)"
  by (cases data) (simp_all add: js_index_def)

lemma js_index_last:
  "data \<noteq> [] \<Longrightarrow> js_index data (int (length data) - 1) = Some (last data)"
proof -
  assume ne: "data \<noteq> []"
  then have "nat (int (length data) - 1) = length data - 1" by simp
  with ne show ?thesis
    by (simp add: js_index_def last_conv_nth)
qed

text \<open>
  C10. Both change computations read \<open>data[0]\<close> and \<open>data[length - 1]\<close>
  unguarded. On a non-empty series both reads are in bounds (they return the
  first and the last record) and both computations return the difference of
  the two populations; on the empty series both reads are out of bounds and
  both computations throw.
\<close>

theorem population_change_defined_iff_nonempty:
  "(data \<noteq> [] \<longrightarrow>
      js_index data 0 = Some (hd data) \<and>
      js_index data (int (length data) - 1) = Some (last data) \<and>
      popChange data =
        Inr (YearlyPopulation.population (last data) - YearlyPopulation.population (hd data)) \<and>
      change data =
        Inr (YearlyPopulation.population (last data) - YearlyPopulation.population (hd data))) \<and>
   (data = [] \<longrightarrow>
      js_index data 0 = None \<and>
      js_index data (int (length data) - 1) = None \<and>
      popChange data = Inl TypeError \<and>
      change data = Inl TypeError)"
proof (cases "data = []")
  case True
  then show ?thesis
    by (simp add: js_index_def popChange_def change_def)
next
  case False
  then show ?thesis
    by (simp add: js_index_first js_index_last popChange_def change_def)
qed

theorem population_change_defined_iff_nonempty_witness:
  "[\<lparr>YearlyPopulation.year = 2015, population = 100000\<rparr>,
    \<lparr>YearlyPopulation.year = 2020, population = 95000\<rparr>] \<noteq> [] \<and>
   js_index [\<lparr>YearlyPopulation.year = 2015, population = 100000\<rparr>,
             \<lparr>YearlyPopulation.year = 2020, population = 95000\<rparr>] 0 =
     Some \<lparr>YearlyPopulation.year = 2015, population = 100000\<rparr> \<and>
   js_index [\<lparr>YearlyPopulation.year = 2015, population = 100000\<rparr>,
             \<lparr>YearlyPopulation.year = 2020, population = 95000\<rparr>] 1 =
     Some \<lparr>YearlyPopulation.year = 2020, population = 95000\<rparr> \<and>
   popChange [\<lparr>YearlyPopulation.year = 2015, population = 100000\<rparr>,
              \<lparr>YearlyPopulation.year = 2020, population = 95000\<rparr>] = Inr (- 5000) \<and>
   change [\<lparr>YearlyPopulation.year = 2015, population = 100000\<rparr>,
           \<lparr>YearlyPopulation.year = 2020, population = 95000\<rparr>] = Inr (- 5000) \<and>
   js_index ([] :: YearlyPopulation list) 0 = None \<and>
   js_index ([] :: YearlyPopulation list) (- 1) = None \<and>
   popChange [] = Inl TypeError \<and>
   change [] = Inl TypeError"
  using population_change_defined_iff_nonempty
          [of "[\<lparr>YearlyPopulation.year = 2015, population = 100000\<rparr>,
                \<lparr>YearlyPopulation.year = 2020, population = 95000\<rparr>]"]
        population_change_defined_iff_nonempty [of "[]"]
  by simp


section \<open>Properties of the municipality search\<close>

text \<open>
  C8. The filtered list never has more than 50 entries, and for a non-empty
  search text every entry in it matches: the lowercased text occurs in the
  lowercased municipality name or in the lowercased prefecture name, or the
  text as typed occurs in the code.
\<close>

theorem filteredMunicipalities_bounded_matching:
  "length (filteredMunicipalities toLowerCase municipalities searchText) \<le> 50 \<and>
   (searchText \<noteq> [] \<longrightarrow>
     (\<forall>m \<in> set (filteredMunicipalities toLowerCase municipalities searchText).
        (\<exists>p q. toLowerCase (municipality m) = p @ toLowerCase searchText @ q) \<or>
        (\<exists>p q. toLowerCase (prefecture m) = p @ toLowerCase searchText @ q) \<or>
        (\<exists>p q. code m = p @ searchText @ q)))"
proof -
  have len: "length (filteredMunicipalities toLowerCase municipalities searchText) \<le> 50"
    by (simp add: filteredMunicipalities_def slice0_def Let_def)
  have mat: "(\<exists>p q. toLowerCase (municipality m) = p @ toLowerCase searchText @ q) \<or>
        (\<exists>p q. toLowerCase (prefecture m) = p @ toLowerCase searchText @ q) \<or>
        (\<exists>p q. code m = p @ searchText @ q)"
    if ne: "searchText \<noteq> []"
      and m: "m \<in> set (filteredMunicipalities toLowerCase municipalities searchText)" for m
  proof -
    from m ne have "m \<in> set (take 50 (filter
                (\<lambda>m. str_includes (toLowerCase (municipality m)) (toLowerCase searchText) \<or>
                     str_includes (toLowerCase (prefecture m)) (toLowerCase searchText) \<or>
                     str_includes (code m) searchText)
                municipalities))"
      by (simp add: filteredMunicipalities_def slice0_def Let_def)
    then have "str_includes (toLowerCase (municipality m)) (toLowerCase searchText) \<or>
                     str_includes (toLowerCase (prefecture m)) (toLowerCase searchText) \<or>
                     str_includes (code m) searchText"
      by (auto dest: in_set_takeD)
    then show ?thesis
      unfolding str_includes_def sublist_def by simp
  qed
  from len mat show ?thesis by blast
qed


theorem filteredMunicipalities_bounded_matching_witness:
  "length (filteredMunicipalities ascii_toLowerCase
      [\<lparr>code = ''13101'', prefecture = ''Tokyo'', municipality = ''Chiyoda''\<rparr>,
       \<lparr>code = ''01100'', prefecture = ''Hokkaido'', municipality = ''Sapporo''\<rparr>]
      ''TOK'') \<le> 50 \<and>
   ''TOK'' \<noteq> [] \<and>
   \<lparr>code = ''13101'', prefecture = ''Tokyo'', municipality = ''Chiyoda''\<rparr>
     \<in> set (filteredMunicipalities ascii_toLowerCase
      [\<lparr>code = ''13101'', prefecture = ''Tokyo'', municipality = ''Chiyoda''\<rparr>,
       \<lparr>code = ''01100'', prefecture = ''Hokkaido'', municipality = ''Sapporo''\<rparr>]
      ''TOK'') \<and>
   ((\<exists>p q. ascii_toLowerCase ''Chiyoda'' = p @ ascii_toLowerCase ''TOK'' @ q) \<or>
    (\<exists>p q. ascii_toLowerCase ''Tokyo'' = p @ ascii_toLowerCase ''TOK'' @ q) \<or>
    (\<exists>p q. ''13101'' = p @ ''TOK'' @ q))"
proof -
  let ?ms = "[\<lparr>code = ''13101'', prefecture = ''Tokyo'', municipality = ''Chiyoda''\<rparr>,
       \<lparr>code = ''01100'', prefecture = ''Hokkaido'', municipality = ''Sapporo''\<rparr>]"
  let ?m = "\<lparr>code = ''13101'', prefecture = ''Tokyo'', municipality = ''Chiyoda''\<rparr>"
  have run: "filteredMunicipalities ascii_toLowerCase ?ms ''TOK'' = [?m]"
    by code_simp
  have ne: "''TOK'' \<noteq> []" by simp
  have mem: "?m \<in> set (filteredMunicipalities ascii_toLowerCase ?ms ''TOK'')"
    by (simp only: run list.set insertI1)
  from filteredMunicipalities_bounded_matching [of ascii_toLowerCase ?ms "''TOK''"] ne mem
  have "length (filteredMunicipalities ascii_toLowerCase ?ms ''TOK'') \<le> 50"
    and "(\<exists>p q. ascii_toLowerCase (municipality ?m) = p @ ascii_toLowerCase ''TOK'' @ q) \<or>
         (\<exists>p q. ascii_toLowerCase (prefecture ?m) = p @ ascii_toLowerCase ''TOK'' @ q) \<or>
         (\<exists>p q. code ?m = p @ ''TOK'' @ q)"
    by blast+
  with ne mem show ?thesis by simp
qed


section \<open>Properties of the time slider\<close>











end
